theory Spec2Isabelle
  imports Complex_Main
begin

section \<open>Two-body simulation: the data of \<open>script.js\<close>\<close>

text \<open>
  JavaScript numbers are modelled as the reals: the arithmetic of the script is read as exact
  arithmetic, so rounding, overflow and NaN are outside this model.  Where HOL and JavaScript
  disagree on an operation (\<open>Math.sqrt\<close> of a negative number, division by zero), a
  theorem that depends on its value carries the hypothesis that excludes the disagreement.
\<close>

text \<open>\<open>class Vector\<close>: the two fields set by the constructor.\<close>

record Vector =
  x :: real
  y :: real

text \<open>The object literals assigned to \<open>m1\<close> and \<open>m2\<close>.\<close>

record body =
  mass :: real
  radius :: real
  color :: string
  pos :: Vector
  vel :: Vector

text \<open>\<open>kickArrowState\<close>; \<open>dir\<close> is \<open>null\<close> until the first kick.\<close>

record kick_arrow =
  active :: bool
  dir :: "Vector option"
  endTime :: real

text \<open>
  The constants of the script and the canvas size it sets, collected so that the functions
  can be studied for every choice of them.  \<open>script_config\<close> holds the values of the file.
\<close>

record config =
  SIM_G :: real
  DT :: real
  M1_MASS :: real
  M2_MASS :: real
  M1_RADIUS :: real
  M2_RADIUS :: real
  M1_COLOR :: string
  M2_COLOR :: string
  MAX_TRAIL_LENGTH :: nat
  INITIAL_M2_DISTANCE :: real
  KICK_ARROW_DURATION :: real
  canvas_width :: real
  canvas_height :: real

definition script_config :: config where
  "script_config =
     \<lparr> SIM_G = 3700, DT = 0.01, M1_MASS = 1000, M2_MASS = 1, M1_RADIUS = 20, M2_RADIUS = 5,
       M1_COLOR = ''yellow'', M2_COLOR = ''deepskyblue'', MAX_TRAIL_LENGTH = 1000,
       INITIAL_M2_DISTANCE = 150, KICK_ARROW_DURATION = 1000,
       canvas_width = 800, canvas_height = 600 \<rparr>"

text \<open>
  The module-level variables \<open>m1\<close>, \<open>m2\<close> (undefined until the first set-up),
  \<open>m2Trail\<close>, \<open>isPaused\<close> and \<open>kickArrowState\<close>.  The trail holds the \<open>{x, y}\<close>
  objects pushed by \<open>updatePhysics\<close>, oldest first.
\<close>

record state =
  m1 :: "body option"
  m2 :: "body option"
  m2Trail :: "Vector list"
  isPaused :: bool
  kickArrowState :: kick_arrow

definition initial_state :: state where
  "initial_state =
     \<lparr> m1 = None, m2 = None, m2Trail = [], isPaused = False,
       kickArrowState = \<lparr> active = False, dir = None, endTime = 0 \<rparr> \<rparr>"

section \<open>The methods of \<open>Vector\<close>\<close>

definition Vector_add :: "Vector \<Rightarrow> Vector \<Rightarrow> Vector" where
  "Vector_add this v = \<lparr> x = x this + x v, y = y this + y v \<rparr>"

definition Vector_sub :: "Vector \<Rightarrow> Vector \<Rightarrow> Vector" where
  "Vector_sub this v = \<lparr> x = x this - x v, y = y this - y v \<rparr>"

definition Vector_mult :: "Vector \<Rightarrow> real \<Rightarrow> Vector" where
  "Vector_mult this scalar = \<lparr> x = x this * scalar, y = y this * scalar \<rparr>"

definition Vector_mag :: "Vector \<Rightarrow> real" where
  "Vector_mag this = sqrt (x this * x this + y this * y this)"

definition Vector_norm :: "Vector \<Rightarrow> Vector" where
  "Vector_norm this =
     (let m = Vector_mag this
      in if m = 0 then \<lparr> x = 0, y = 0 \<rparr> else \<lparr> x = x this / m, y = y this / m \<rparr>)"

definition Vector_fromAngle :: "real \<Rightarrow> real \<Rightarrow> Vector" where
  "Vector_fromAngle angleRad magnitude =
     \<lparr> x = magnitude * cos angleRad, y = magnitude * sin angleRad \<rparr>"

section \<open>\<open>setupInitialConditions\<close>\<close>

text \<open>
  The function returns nothing; the outcome records which \<open>return\<close> was taken:
  \<open>SetupZeroDistance\<close> is the early return after
  \<open>console.error("Initial distance between M1 and M2 is zero!")\<close>.
\<close>

datatype setup_outcome = SetupZeroDistance | SetupDone

definition setupInitialConditions :: "config \<Rightarrow> state \<Rightarrow> setup_outcome \<times> state" where
  "setupInitialConditions cfg s =
     (let arrow = (kickArrowState s) \<lparr> active := False \<rparr>;
          b1 = \<lparr> mass = M1_MASS cfg, radius = M1_RADIUS cfg, color = M1_COLOR cfg,
                 pos = \<lparr> x = canvas_width cfg / 2, y = canvas_height cfg / 2 \<rparr>,
                 vel = \<lparr> x = 0, y = 0 \<rparr> \<rparr>;
          b2 = \<lparr> mass = M2_MASS cfg, radius = M2_RADIUS cfg, color = M2_COLOR cfg,
                 pos = \<lparr> x = x (pos b1) + INITIAL_M2_DISTANCE cfg, y = y (pos b1) \<rparr>,
                 vel = \<lparr> x = 0, y = 0 \<rparr> \<rparr>;
          rVec = Vector_sub (pos b2) (pos b1);
          rMag = Vector_mag rVec
      in if rMag = 0
         then (SetupZeroDistance,
               \<lparr> m1 = Some b1, m2 = Some (b2 \<lparr> vel := \<lparr> x = 0, y = 0 \<rparr> \<rparr>), m2Trail = [],
                 isPaused = True, kickArrowState = arrow \<rparr>)
         else (let orbitalSpeedScalar = sqrt ((SIM_G cfg * mass b1) / rMag)
               in (SetupDone,
                   \<lparr> m1 = Some b1,
                     m2 = Some (b2 \<lparr> vel := \<lparr> x = 0, y = - orbitalSpeedScalar \<rparr> \<rparr>),
                     m2Trail = [], isPaused = False, kickArrowState = arrow \<rparr>)))"

section \<open>\<open>applyKick\<close>\<close>

text \<open>
  \<open>angleValue\<close> and \<open>magnitudeValue\<close> are the numbers read from the two sliders and
  \<open>now\<close> is the value of \<open>Date.now()\<close>.  \<open>KickPaused\<close> is the return after the alert,
  \<open>KickNoBody\<close> the return after \<open>console.error("M2 is not initialized ...")\<close>.
\<close>

datatype kick_outcome = KickPaused | KickNoBody | KickApplied

definition applyKick ::
  "config \<Rightarrow> real \<Rightarrow> real \<Rightarrow> real \<Rightarrow> state \<Rightarrow> kick_outcome \<times> state" where
  "applyKick cfg angleValue magnitudeValue now s =
     (if isPaused s then (KickPaused, s)
      else case m2 s of
        None \<Rightarrow> (KickNoBody, s)
      | Some b2 \<Rightarrow>
          (let kickAngleRad = angleValue * pi / 180;
               kickMagnitude = magnitudeValue;
               kickDeltaV = Vector_fromAngle kickAngleRad kickMagnitude
           in (KickApplied,
               s \<lparr> m2 := Some (b2 \<lparr> vel := Vector_add (vel b2) kickDeltaV \<rparr>),
                   m2Trail := [],
                   kickArrowState :=
                     \<lparr> active = True, dir = Some (Vector_norm kickDeltaV),
                       endTime = now + KICK_ARROW_DURATION cfg \<rparr> \<rparr>)))"

section \<open>\<open>updatePhysics\<close>\<close>

text \<open>The last three lines of \<open>updatePhysics\<close>: \<open>push\<close>, then one \<open>shift\<close> if too long.\<close>

definition trail_push :: "config \<Rightarrow> Vector \<Rightarrow> Vector list \<Rightarrow> Vector list" where
  "trail_push cfg p trail =
     (let pushed = trail @ [p]
      in if length pushed > MAX_TRAIL_LENGTH cfg then tl pushed else pushed)"

text \<open>
  One constructor for each way out of the function: \<open>StepNoBody\<close> for the first line,
  \<open>StepCollision\<close> after \<open>console.warn("Collision detected or objects too close!")\<close>,
  \<open>StepZeroDistance\<close> after \<open>console.error("Distance between objects is zero, ...")\<close>,
  \<open>StepContinue\<close> for the end of the body.
\<close>

datatype step_outcome = StepNoBody | StepCollision | StepZeroDistance | StepContinue

definition updatePhysics :: "config \<Rightarrow> state \<Rightarrow> step_outcome \<times> state" where
  "updatePhysics cfg s =
     (case (m1 s, m2 s) of
        (Some b1, Some b2) \<Rightarrow>
          (let forceVec = Vector_sub (pos b1) (pos b2);
               distSq = Vector_mag forceVec * Vector_mag forceVec
           in if distSq < (radius b1 + radius b2) * (radius b1 + radius b2) * 0.8
              then (StepCollision, s \<lparr> isPaused := True \<rparr>)
              else if distSq = 0
              then (StepZeroDistance, s \<lparr> isPaused := True \<rparr>)
              else
                (let forceMag = (SIM_G cfg * mass b1 * mass b2) / distSq;
                     gravityForce = Vector_mult (Vector_norm forceVec) forceMag;
                     accelerationM2 = Vector_mult gravityForce (1 / mass b2);
                     newVel = Vector_add (vel b2) (Vector_mult accelerationM2 (DT cfg));
                     newPos = Vector_add (pos b2) (Vector_mult newVel (DT cfg))
                 in (StepContinue,
                     s \<lparr> m2 := Some (b2 \<lparr> vel := newVel, pos := newPos \<rparr>),
                         m2Trail :=
                           trail_push cfg \<lparr> x = x newPos, y = y newPos \<rparr> (m2Trail s) \<rparr>)))
      | _ \<Rightarrow> (StepNoBody, s))"

text \<open>The step halts when it leaves through one of the two pausing returns.\<close>

definition halted :: "step_outcome \<Rightarrow> bool" where
  "halted out = (out = StepCollision \<or> out = StepZeroDistance)"

section \<open>The animation loop and the event handlers\<close>

text \<open>
  Of \<open>draw\<close> only the effect on the variables is kept: once the arrow's time is over
  (\<open>now\<close> is \<open>Date.now()\<close>) it is switched off.  The canvas calls are left out.
\<close>

definition draw :: "real \<Rightarrow> state \<Rightarrow> state" where
  "draw now s =
     (if m1 s = None \<or> m2 s = None then s
      else if active (kickArrowState s)
      then (if now < endTime (kickArrowState s) then s
            else s \<lparr> kickArrowState := (kickArrowState s) \<lparr> active := False \<rparr> \<rparr>)
      else s)"

text \<open>One animation frame; the request for the next frame is the next event.\<close>

definition simulationLoop :: "config \<Rightarrow> real \<Rightarrow> state \<Rightarrow> state" where
  "simulationLoop cfg now s =
     draw now (if \<not> isPaused s then snd (updatePhysics cfg s) else s)"

definition startSimulation :: "config \<Rightarrow> real \<Rightarrow> state \<Rightarrow> state" where
  "startSimulation cfg now s =
     (let s' = snd (setupInitialConditions cfg s)
      in if m1 s' \<noteq> None \<and> m2 s' \<noteq> None then simulationLoop cfg now s' else s')"

text \<open>
  What can happen after the script has loaded: an animation frame, a click on the kick
  button (with the slider values), a click on the reset button, the space key.
\<close>

datatype event =
    AnimationFrame real
  | KickClick real real real
  | ResetClick real
  | SpaceKey

fun handle :: "config \<Rightarrow> state \<Rightarrow> event \<Rightarrow> state" where
  "handle cfg s (AnimationFrame now) = simulationLoop cfg now s"
| "handle cfg s (KickClick angleValue magnitudeValue now) =
     snd (applyKick cfg angleValue magnitudeValue now s)"
| "handle cfg s (ResetClick now) = startSimulation cfg now s"
| "handle cfg s SpaceKey = s \<lparr> isPaused := \<not> isPaused s \<rparr>"

text \<open>The script ends with \<open>startSimulation()\<close>; the events follow.\<close>

definition run :: "config \<Rightarrow> real \<Rightarrow> event list \<Rightarrow> state" where
  "run cfg now evs = foldl (handle cfg) (startSimulation cfg now initial_state) evs"

section \<open>The halting condition in the words of the specification\<close>

text \<open>
  The specification's test for a halting step: \<open>|r|\<^sup>2 < ((r1 + r2) * 0.8)\<^sup>2\<close> or
  \<open>|r| = 0\<close>, with \<open>r\<close> the vector from the secondary to the primary.
\<close>

definition spec_halt_condition :: "body \<Rightarrow> body \<Rightarrow> bool" where
  "spec_halt_condition b1 b2 =
     (let r = Vector_sub (pos b1) (pos b2)
      in (Vector_mag r)\<^sup>2 < ((radius b1 + radius b2) * 0.8)\<^sup>2 \<or> Vector_mag r = 0)"

section \<open>Sample states\<close>

text \<open>The primary as the script sets it up, and secondaries at distances 150, 21, 15 and 0.\<close>

definition sample_m1 :: body where
  "sample_m1 = \<lparr> mass = 1000, radius = 20, color = ''yellow'',
                 pos = \<lparr> x = 400, y = 300 \<rparr>, vel = \<lparr> x = 0, y = 0 \<rparr> \<rparr>"

definition secondary_at :: "real \<Rightarrow> body" where
  "secondary_at d = \<lparr> mass = 1, radius = 5, color = ''deepskyblue'',
                      pos = \<lparr> x = 400 + d, y = 300 \<rparr>, vel = \<lparr> x = 0, y = - 157 \<rparr> \<rparr>"

definition sample_state :: "real \<Rightarrow> state" where
  "sample_state d =
     \<lparr> m1 = Some sample_m1, m2 = Some (secondary_at d), m2Trail = [], isPaused = False,
       kickArrowState = \<lparr> active = False, dir = None, endTime = 0 \<rparr> \<rparr>"

section \<open>Helper facts\<close>

lemma Vector_mag_nonneg: "0 \<le> Vector_mag v"
  by (simp add: Vector_mag_def)

lemma Vector_mag_axis: "Vector_mag \<lparr> x = a, y = 0 \<rparr> = \<bar>a\<bar>"
  by (simp add: Vector_mag_def)

lemma setup_rMag:
  "Vector_mag (Vector_sub \<lparr> x = cx + d, y = cy \<rparr> \<lparr> x = cx, y = cy \<rparr>) = \<bar>d\<bar>"
  by (simp add: Vector_mag_def Vector_sub_def)

text \<open>Within \<open>0.8 * R\<close> but not at distance zero means under the threshold of the code.\<close>

lemma near_arith:
  fixes d R :: real
  assumes "0 \<le> d" and "d \<le> 0.8 * R" and "d \<noteq> 0"
  shows "d * d < R * R * 0.8"
proof -
  have R: "0 < R"
    using assms by simp
  have "d * d \<le> (0.8 * R) * (0.8 * R)"
    using assms by (intro mult_mono) simp_all
  also have "\<dots> = 0.64 * (R * R)"
    by simp
  also have "\<dots> < 0.8 * (R * R)"
    using R by simp
  finally show ?thesis
    by (simp add: mult.commute)
qed

subsection \<open>The trail\<close>

lemma trail_push_drop:
  assumes "length trail \<le> MAX_TRAIL_LENGTH cfg"
  shows "trail_push cfg p trail =
           drop (Suc (length trail) - MAX_TRAIL_LENGTH cfg) (trail @ [p])"
proof (cases "length trail = MAX_TRAIL_LENGTH cfg")
  case True
  then have "Suc (length trail) - MAX_TRAIL_LENGTH cfg = Suc 0"
    by simp
  moreover have "trail_push cfg p trail = tl (trail @ [p])"
    using True by (simp add: trail_push_def Let_def)
  ultimately show ?thesis
    by (simp only: drop_Suc drop_0)
next
  case False
  with assms have "length trail < MAX_TRAIL_LENGTH cfg"
    by simp
  then show ?thesis
    by (simp add: trail_push_def Let_def)
qed

lemma trail_push_length:
  "length trail \<le> MAX_TRAIL_LENGTH cfg \<Longrightarrow>
     length (trail_push cfg p trail) \<le> MAX_TRAIL_LENGTH cfg"
  by (simp add: trail_push_def Let_def)

lemma drop_drop_append:
  assumes "k \<le> length u"
  shows "drop a (drop k u @ ps) = drop (a + k) (u @ ps)"
proof -
  have "drop k u @ ps = drop k (u @ ps)"
    using assms by simp
  then have "drop a (drop k u @ ps) = drop a (drop k (u @ ps))"
    by (simp only:)
  also have "\<dots> = drop (a + k) (u @ ps)"
    by (simp only: drop_drop)
  finally show ?thesis .
qed

text \<open>Pushing \<open>ps\<close> one after the other keeps the newest entries, in their order.\<close>

lemma fold_trail_push_drop:
  "length trail \<le> MAX_TRAIL_LENGTH cfg \<Longrightarrow>
     fold (trail_push cfg) ps trail =
       drop (length trail + length ps - MAX_TRAIL_LENGTH cfg) (trail @ ps)"
proof (induction ps arbitrary: trail)
  case Nil
  then show ?case by simp
next
  case (Cons p ps)
  let ?N = "MAX_TRAIL_LENGTH cfg"
  let ?k = "Suc (length trail) - ?N"
  let ?u = "trail @ [p]"
  have len: "length (trail_push cfg p trail) \<le> ?N"
    using Cons.prems by (rule trail_push_length)
  have step: "trail_push cfg p trail = drop ?k ?u"
    using Cons.prems by (rule trail_push_drop)
  have k: "?k \<le> length ?u"
    by simp
  have "fold (trail_push cfg) (p # ps) trail = fold (trail_push cfg) ps (drop ?k ?u)"
    by (simp add: step)
  also have "\<dots> = drop (length (drop ?k ?u) + length ps - ?N) (drop ?k ?u @ ps)"
    using len unfolding step by (rule Cons.IH)
  also have "\<dots> = drop (length (drop ?k ?u) + length ps - ?N + ?k) (?u @ ps)"
    using k by (rule drop_drop_append)
  also have "length (drop ?k ?u) + length ps - ?N + ?k = length trail + length (p # ps) - ?N"
    using Cons.prems by simp
  finally show ?case by simp
qed

lemma fold_trail_push_last:
  assumes "length trail \<le> MAX_TRAIL_LENGTH cfg" and "MAX_TRAIL_LENGTH cfg \<le> length ps"
  shows "fold (trail_push cfg) ps trail = drop (length ps - MAX_TRAIL_LENGTH cfg) ps"
proof -
  have "length trail + length ps - MAX_TRAIL_LENGTH cfg
          = length trail + (length ps - MAX_TRAIL_LENGTH cfg)"
    using assms(2) by simp
  then show ?thesis
    using assms(1) by (simp add: fold_trail_push_drop)
qed

subsection \<open>The bound on the trail, handler by handler\<close>

lemma draw_fields:
  "m2Trail (draw now s) = m2Trail s" "isPaused (draw now s) = isPaused s"
  "m1 (draw now s) = m1 s" "m2 (draw now s) = m2 s"
  by (simp_all add: draw_def)

lemma updatePhysics_trail_bound:
  "length (m2Trail s) \<le> MAX_TRAIL_LENGTH cfg \<Longrightarrow>
     length (m2Trail (snd (updatePhysics cfg s))) \<le> MAX_TRAIL_LENGTH cfg"
  by (auto simp: updatePhysics_def Let_def trail_push_length split: option.splits)

lemma simulationLoop_trail_bound:
  "length (m2Trail s) \<le> MAX_TRAIL_LENGTH cfg \<Longrightarrow>
     length (m2Trail (simulationLoop cfg now s)) \<le> MAX_TRAIL_LENGTH cfg"
  by (simp add: simulationLoop_def draw_fields updatePhysics_trail_bound)

lemma setup_trail: "m2Trail (snd (setupInitialConditions cfg s)) = []"
  by (simp add: setupInitialConditions_def Let_def)

lemma startSimulation_trail_bound:
  "length (m2Trail (startSimulation cfg now s)) \<le> MAX_TRAIL_LENGTH cfg"
  by (simp add: startSimulation_def Let_def setup_trail simulationLoop_trail_bound)

lemma applyKick_trail_bound:
  "length (m2Trail s) \<le> MAX_TRAIL_LENGTH cfg \<Longrightarrow>
     length (m2Trail (snd (applyKick cfg a g now s))) \<le> MAX_TRAIL_LENGTH cfg"
  by (simp add: applyKick_def Let_def split: option.splits)

lemma handle_trail_bound:
  "length (m2Trail s) \<le> MAX_TRAIL_LENGTH cfg \<Longrightarrow>
     length (m2Trail (handle cfg s ev)) \<le> MAX_TRAIL_LENGTH cfg"
  by (cases ev)
     (simp_all add: simulationLoop_trail_bound applyKick_trail_bound startSimulation_trail_bound)

lemma foldl_handle_trail_bound:
  "length (m2Trail s) \<le> MAX_TRAIL_LENGTH cfg \<Longrightarrow>
     length (m2Trail (foldl (handle cfg) s evs)) \<le> MAX_TRAIL_LENGTH cfg"
  by (induction evs arbitrary: s) (simp_all add: handle_trail_bound)

subsection \<open>Both bodies exist in every state the script reaches\<close>

lemma updatePhysics_bodies:
  "m1 s \<noteq> None \<and> m2 s \<noteq> None \<Longrightarrow>
     m1 (snd (updatePhysics cfg s)) \<noteq> None \<and> m2 (snd (updatePhysics cfg s)) \<noteq> None"
  by (auto simp: updatePhysics_def Let_def split: option.splits)

lemma simulationLoop_bodies:
  "m1 s \<noteq> None \<and> m2 s \<noteq> None \<Longrightarrow>
     m1 (simulationLoop cfg now s) \<noteq> None \<and> m2 (simulationLoop cfg now s) \<noteq> None"
  using updatePhysics_bodies [of s cfg] by (simp add: simulationLoop_def draw_fields)

lemma setup_bodies:
  "m1 (snd (setupInitialConditions cfg s)) \<noteq> None
   \<and> m2 (snd (setupInitialConditions cfg s)) \<noteq> None"
  by (simp add: setupInitialConditions_def Let_def)

lemma startSimulation_bodies:
  "m1 (startSimulation cfg now s) \<noteq> None \<and> m2 (startSimulation cfg now s) \<noteq> None"
  using setup_bodies [of cfg s] simulationLoop_bodies [of "snd (setupInitialConditions cfg s)" cfg now]
  by (simp add: startSimulation_def Let_def)

lemma applyKick_bodies:
  "m1 s \<noteq> None \<and> m2 s \<noteq> None \<Longrightarrow>
     m1 (snd (applyKick cfg a g now s)) \<noteq> None \<and> m2 (snd (applyKick cfg a g now s)) \<noteq> None"
  by (auto simp: applyKick_def Let_def split: option.splits)

lemma handle_bodies:
  "m1 s \<noteq> None \<and> m2 s \<noteq> None \<Longrightarrow>
     m1 (handle cfg s ev) \<noteq> None \<and> m2 (handle cfg s ev) \<noteq> None"
  by (cases ev) (simp_all add: simulationLoop_bodies applyKick_bodies startSimulation_bodies)

lemma foldl_handle_bodies:
  "m1 s \<noteq> None \<and> m2 s \<noteq> None \<Longrightarrow>
     m1 (foldl (handle cfg) s evs) \<noteq> None \<and> m2 (foldl (handle cfg) s evs) \<noteq> None"
proof (induction evs arbitrary: s)
  case Nil
  then show ?case by simp
next
  case (Cons ev evs)
  have "m1 (handle cfg s ev) \<noteq> None \<and> m2 (handle cfg s ev) \<noteq> None"
    using Cons.prems by (rule handle_bodies)
  then have "m1 (foldl (handle cfg) (handle cfg s ev) evs) \<noteq> None
           \<and> m2 (foldl (handle cfg) (handle cfg s ev) evs) \<noteq> None"
    by (rule Cons.IH)
  then show ?case by simp
qed

lemma run_bodies: "m1 (run cfg now evs) \<noteq> None \<and> m2 (run cfg now evs) \<noteq> None"
  unfolding run_def by (rule foldl_handle_bodies) (rule startSimulation_bodies)

subsection \<open>The sample states\<close>

lemma sample_bodies:
  "m1 (sample_state d) = Some sample_m1" "m2 (sample_state d) = Some (secondary_at d)"
  "isPaused (sample_state d) = False" "m2Trail (sample_state d) = []"
  by (simp_all add: sample_state_def)

lemma sample_separation:
  "Vector_sub (pos sample_m1) (pos (secondary_at d)) = \<lparr> x = - d, y = 0 \<rparr>"
  by (simp add: sample_m1_def secondary_at_def Vector_sub_def)

section \<open>Claims about \<open>updatePhysics\<close>\<close>

text \<open>
  C1, as the code has it: when both bodies exist, \<open>updatePhysics\<close> halts exactly when the
  squared separation is below \<open>0.8 * (r1 + r2)\<^sup>2\<close> or the separation is zero, and a halting
  call only sets \<open>isPaused\<close>; otherwise it returns through the end of the body with the
  secondary's velocity and position updated and the new position pushed on the trail.
  The threshold is \<open>0.8 * (r1 + r2)\<^sup>2\<close>, not \<open>((r1 + r2) * 0.8)\<^sup>2\<close>.
\<close>

theorem updatePhysics_halt_iff:
  assumes "m1 s = Some b1" and "m2 s = Some b2"
  shows "let r = Vector_sub (pos b1) (pos b2);
             forceMag = (SIM_G cfg * mass b1 * mass b2) / (Vector_mag r)\<^sup>2;
             accelerationM2 = Vector_mult (Vector_mult (Vector_norm r) forceMag) (1 / mass b2);
             newVel = Vector_add (vel b2) (Vector_mult accelerationM2 (DT cfg));
             newPos = Vector_add (pos b2) (Vector_mult newVel (DT cfg))
         in if (Vector_mag r)\<^sup>2 < 0.8 * (radius b1 + radius b2)\<^sup>2 \<or> Vector_mag r = 0
            then halted (fst (updatePhysics cfg s))
               \<and> snd (updatePhysics cfg s) = s \<lparr> isPaused := True \<rparr>
            else fst (updatePhysics cfg s) = StepContinue
               \<and> snd (updatePhysics cfg s) =
                   s \<lparr> m2 := Some (b2 \<lparr> vel := newVel, pos := newPos \<rparr>),
                       m2Trail := trail_push cfg newPos (m2Trail s) \<rparr>"
proof -
  let ?r = "Vector_sub (pos b1) (pos b2)"
  let ?R = "radius b1 + radius b2"
  have thr: "(Vector_mag ?r)\<^sup>2 < 0.8 * ?R\<^sup>2
             \<longleftrightarrow> Vector_mag ?r * Vector_mag ?r < ?R * ?R * 0.8"
    by (simp add: power2_eq_square mult.commute)
  have zero: "Vector_mag ?r = 0 \<longleftrightarrow> Vector_mag ?r * Vector_mag ?r = 0"
    by simp
  have same: "\<lparr> x = x v, y = y v \<rparr> = v" for v :: Vector
    by simp
  show ?thesis
    unfolding Let_def thr zero
    using assms
    by (simp add: updatePhysics_def Let_def halted_def same power2_eq_square)
qed

text \<open>
  The theorem at work with the constants of the script: at distance 150 the step continues,
  at distance 21 (squared: 441, under the threshold 500) it halts.
\<close>

theorem updatePhysics_halt_iff_witness:
  "m1 (sample_state 150) = Some sample_m1
   \<and> m2 (sample_state 150) = Some (secondary_at 150)
   \<and> updatePhysics script_config (sample_state 150) =
       (StepContinue,
        (sample_state 150)
          \<lparr> m2 := Some ((secondary_at 150)
                   \<lparr> vel := \<lparr> x = - (74 / 45), y = - 157 \<rparr>,
                     pos := \<lparr> x = 550 - 37 / 2250, y = 298.43 \<rparr> \<rparr>),
            m2Trail := [\<lparr> x = 550 - 37 / 2250, y = 298.43 \<rparr>] \<rparr>)
   \<and> m1 (sample_state 21) = Some sample_m1
   \<and> m2 (sample_state 21) = Some (secondary_at 21)
   \<and> updatePhysics script_config (sample_state 21) =
       (StepCollision, (sample_state 21) \<lparr> isPaused := True \<rparr>)"
  using updatePhysics_halt_iff [of "sample_state 150" sample_m1 "secondary_at 150" script_config]
    updatePhysics_halt_iff [of "sample_state 21" sample_m1 "secondary_at 21" script_config]
  by (simp add: updatePhysics_def Let_def sample_bodies Vector_sub_def Vector_mag_axis
      Vector_norm_def Vector_mult_def Vector_add_def trail_push_def script_config_def
      sample_m1_def secondary_at_def)

text \<open>
  C1 as the specification words it fails: with radii 20 and 5 and the bodies 21 apart, the
  squared separation 441 is not below \<open>((20 + 5) * 0.8)\<^sup>2 = 400\<close> and not zero, yet the
  step halts, since 441 is below \<open>(20 + 5) * (20 + 5) * 0.8 = 500\<close>.
\<close>

theorem step_halt_spec_threshold_counterexample:
  "\<not> (halted (fst (updatePhysics script_config (sample_state 21)))
        \<longleftrightarrow> spec_halt_condition sample_m1 (secondary_at 21))"
  by (simp add: updatePhysics_def spec_halt_condition_def Let_def halted_def sample_bodies
      Vector_sub_def Vector_mag_axis sample_m1_def secondary_at_def)

text \<open>
  C2: when the two bodies lie within distance \<open>0.8 * (r1 + r2)\<close> of each other,
  \<open>updatePhysics\<close> halts, the session is paused afterwards, and the secondary (its position
  and velocity) is what it was before the call; nothing but \<open>isPaused\<close> is written.
\<close>

theorem updatePhysics_near_halts:
  assumes "m1 s = Some b1" and "m2 s = Some b2"
    and "Vector_mag (Vector_sub (pos b1) (pos b2)) \<le> 0.8 * (radius b1 + radius b2)"
  shows "halted (fst (updatePhysics cfg s))
       \<and> isPaused (snd (updatePhysics cfg s))
       \<and> m2 (snd (updatePhysics cfg s)) = Some b2
       \<and> snd (updatePhysics cfg s) = s \<lparr> isPaused := True \<rparr>"
proof -
  let ?d = "Vector_mag (Vector_sub (pos b1) (pos b2))"
  let ?R = "radius b1 + radius b2"
  have "?d * ?d < ?R * ?R * 0.8 \<or> ?d * ?d = 0"
    using near_arith [of ?d ?R] assms(3) Vector_mag_nonneg [of "Vector_sub (pos b1) (pos b2)"]
    by (cases "?d = 0") simp_all
  then show ?thesis
    using assms(1,2) by (auto simp: updatePhysics_def Let_def halted_def)
qed

text \<open>Radii 20 and 5, the bodies 15 apart: within \<open>0.8 * 25 = 20\<close>.\<close>

theorem updatePhysics_near_halts_witness:
  "m1 (sample_state 15) = Some sample_m1
   \<and> m2 (sample_state 15) = Some (secondary_at 15)
   \<and> Vector_mag (Vector_sub (pos sample_m1) (pos (secondary_at 15)))
       \<le> 0.8 * (radius sample_m1 + radius (secondary_at 15))
   \<and> halted (fst (updatePhysics script_config (sample_state 15)))
   \<and> isPaused (snd (updatePhysics script_config (sample_state 15)))
   \<and> m2 (snd (updatePhysics script_config (sample_state 15))) = Some (secondary_at 15)
   \<and> snd (updatePhysics script_config (sample_state 15)) = (sample_state 15) \<lparr> isPaused := True \<rparr>"
proof -
  have bodies: "m1 (sample_state 15) = Some sample_m1"
    "m2 (sample_state 15) = Some (secondary_at 15)"
    by (simp_all add: sample_bodies)
  have near: "Vector_mag (Vector_sub (pos sample_m1) (pos (secondary_at 15)))
                \<le> 0.8 * (radius sample_m1 + radius (secondary_at 15))"
    by (simp add: sample_separation Vector_mag_axis) (simp add: sample_m1_def secondary_at_def)
  show ?thesis
    using updatePhysics_near_halts [OF bodies near, of script_config] bodies near
    by simp
qed

text \<open>
  C3: on a step that does not halt, with \<open>r\<close> the vector from the secondary to the primary
  and a secondary of non-zero mass, the new velocity is the old velocity plus
  \<open>normalize r\<close> scaled by \<open>G * m1 / |r|\<^sup>2\<close> and by \<open>DT\<close>, and the new position is the old
  position plus the new velocity scaled by \<open>DT\<close>: velocity first, then position from the
  updated velocity.
\<close>

theorem updatePhysics_semi_implicit:
  assumes "m1 s = Some b1" and "m2 s = Some b2"
    and "fst (updatePhysics cfg s) = StepContinue"
    and "mass b2 \<noteq> 0"
  shows "let r = Vector_sub (pos b1) (pos b2);
             newVel = Vector_add (vel b2)
                        (Vector_mult (Vector_mult (Vector_norm r)
                           (SIM_G cfg * mass b1 / (Vector_mag r)\<^sup>2)) (DT cfg));
             newPos = Vector_add (pos b2) (Vector_mult newVel (DT cfg))
         in m2 (snd (updatePhysics cfg s)) = Some (b2 \<lparr> vel := newVel, pos := newPos \<rparr>)"
  using assms
  by (auto simp: updatePhysics_def Let_def power2_eq_square Vector_mult_def Vector_add_def
      split: if_splits)

text \<open>
  One step of the script from distance 150 with velocity \<open>(0, -157)\<close>: the pull
  \<open>3700 * 1000 / 150\<^sup>2\<close> acts along \<open>(-1, 0)\<close>.
\<close>

theorem updatePhysics_semi_implicit_witness:
  "m1 (sample_state 150) = Some sample_m1
   \<and> m2 (sample_state 150) = Some (secondary_at 150)
   \<and> fst (updatePhysics script_config (sample_state 150)) = StepContinue
   \<and> mass (secondary_at 150) \<noteq> 0
   \<and> m2 (snd (updatePhysics script_config (sample_state 150))) =
       Some ((secondary_at 150)
               \<lparr> vel := \<lparr> x = 0 + (- 1) * (3700 * 1000 / 150\<^sup>2) * 0.01, y = - 157 \<rparr>,
                 pos := \<lparr> x = 550 + (0 + (- 1) * (3700 * 1000 / 150\<^sup>2) * 0.01) * 0.01,
                          y = 300 + (- 157) * 0.01 \<rparr> \<rparr>)"
  using updatePhysics_semi_implicit
    [of "sample_state 150" sample_m1 "secondary_at 150" script_config]
  by (simp add: updatePhysics_def Let_def sample_bodies Vector_sub_def Vector_mag_axis
      Vector_norm_def Vector_mult_def Vector_add_def script_config_def
      sample_m1_def secondary_at_def)

text \<open>
  C9: whatever \<open>updatePhysics\<close> returns, the primary body \<open>m1\<close> (its mass, radius,
  position and velocity) is the same after the call as before it.
\<close>

theorem updatePhysics_keeps_primary:
  "m1 (snd (updatePhysics cfg s)) = m1 s"
  by (simp add: updatePhysics_def Let_def split: option.splits)

text \<open>
  C10: with both radii positive, \<open>updatePhysics\<close> never leaves through the zero-distance
  return: a squared separation of zero is below the collision threshold, so the collision
  return, which is tested first, takes it.
\<close>

theorem updatePhysics_zero_branch_dead:
  assumes "m1 s = Some b1" and "m2 s = Some b2"
    and "0 < radius b1" and "0 < radius b2"
  shows "fst (updatePhysics cfg s) \<noteq> StepZeroDistance
       \<and> (Vector_mag (Vector_sub (pos b1) (pos b2)) * Vector_mag (Vector_sub (pos b1) (pos b2)) = 0
            \<longrightarrow> fst (updatePhysics cfg s) = StepCollision)"
proof -
  have "0 < (radius b1 + radius b2) * (radius b1 + radius b2) * 0.8"
    using assms(3,4) by simp
  then show ?thesis
    using assms(1,2) by (auto simp: updatePhysics_def Let_def)
qed

text \<open>The two bodies of the script at the same place: the collision return is taken.\<close>

theorem updatePhysics_zero_branch_dead_witness:
  "m1 (sample_state 0) = Some sample_m1
   \<and> m2 (sample_state 0) = Some (secondary_at 0)
   \<and> 0 < radius sample_m1
   \<and> 0 < radius (secondary_at 0)
   \<and> Vector_mag (Vector_sub (pos sample_m1) (pos (secondary_at 0)))
       * Vector_mag (Vector_sub (pos sample_m1) (pos (secondary_at 0))) = 0
   \<and> fst (updatePhysics script_config (sample_state 0)) = StepCollision
   \<and> fst (updatePhysics script_config (sample_state 0)) \<noteq> StepZeroDistance"
proof -
  have bodies: "m1 (sample_state 0) = Some sample_m1"
    "m2 (sample_state 0) = Some (secondary_at 0)"
    by (simp_all add: sample_bodies)
  have radii: "0 < radius sample_m1" "0 < radius (secondary_at 0)"
    by (simp_all add: sample_m1_def secondary_at_def)
  have zero: "Vector_mag (Vector_sub (pos sample_m1) (pos (secondary_at 0)))
                * Vector_mag (Vector_sub (pos sample_m1) (pos (secondary_at 0))) = 0"
    by (simp add: sample_separation Vector_mag_axis)
  show ?thesis
    using updatePhysics_zero_branch_dead [OF bodies radii, of script_config] bodies radii zero
    by simp
qed

section \<open>Claims about \<open>setupInitialConditions\<close>\<close>

text \<open>
  C4: set up with a separation \<open>D > 0\<close> (and \<open>G * m1\<close> not negative, so that the square root
  is one), the primary is at the centre of the canvas with zero velocity, the secondary is
  \<open>D\<close> away from it, and the secondary's velocity has magnitude \<open>sqrt (G * m1 / D)\<close> and
  is perpendicular to the separation vector (their dot product is zero).
\<close>

theorem setup_circular_orbit:
  assumes "0 < INITIAL_M2_DISTANCE cfg" and "0 \<le> SIM_G cfg * M1_MASS cfg"
  shows "\<exists>b1 b2. setupInitialConditions cfg s =
                    (SetupDone, \<lparr> m1 = Some b1, m2 = Some b2, m2Trail = [], isPaused = False,
                                  kickArrowState = (kickArrowState s) \<lparr> active := False \<rparr> \<rparr>)
           \<and> pos b1 = \<lparr> x = canvas_width cfg / 2, y = canvas_height cfg / 2 \<rparr>
           \<and> vel b1 = \<lparr> x = 0, y = 0 \<rparr>
           \<and> Vector_sub (pos b2) (pos b1) = \<lparr> x = INITIAL_M2_DISTANCE cfg, y = 0 \<rparr>
           \<and> Vector_mag (Vector_sub (pos b2) (pos b1)) = INITIAL_M2_DISTANCE cfg
           \<and> Vector_mag (vel b2) = sqrt (SIM_G cfg * M1_MASS cfg / INITIAL_M2_DISTANCE cfg)
           \<and> x (vel b2) * x (Vector_sub (pos b2) (pos b1))
             + y (vel b2) * y (Vector_sub (pos b2) (pos b1)) = 0"
proof -
  let ?D = "INITIAL_M2_DISTANCE cfg"
  have speed: "0 \<le> sqrt (SIM_G cfg * M1_MASS cfg / ?D)"
    using assms by simp
  show ?thesis
    using assms speed
    by (simp add: setupInitialConditions_def Let_def setup_rMag Vector_sub_def Vector_mag_def)
qed

text \<open>The constants of the script: separation 150, speed \<open>sqrt (3700 * 1000 / 150)\<close>.\<close>

theorem setup_circular_orbit_witness:
  "0 < INITIAL_M2_DISTANCE script_config
   \<and> 0 \<le> SIM_G script_config * M1_MASS script_config
   \<and> (\<exists>b1 b2. setupInitialConditions script_config initial_state =
                  (SetupDone, \<lparr> m1 = Some b1, m2 = Some b2, m2Trail = [], isPaused = False,
                                kickArrowState = \<lparr> active = False, dir = None, endTime = 0 \<rparr> \<rparr>)
         \<and> pos b1 = \<lparr> x = 400, y = 300 \<rparr>
         \<and> vel b1 = \<lparr> x = 0, y = 0 \<rparr>
         \<and> Vector_sub (pos b2) (pos b1) = \<lparr> x = 150, y = 0 \<rparr>
         \<and> Vector_mag (vel b2) = sqrt (3700 * 1000 / 150)
         \<and> x (vel b2) * x (Vector_sub (pos b2) (pos b1))
           + y (vel b2) * y (Vector_sub (pos b2) (pos b1)) = 0)"
proof -
  have d: "0 < INITIAL_M2_DISTANCE script_config"
    by (simp add: script_config_def)
  have g: "0 \<le> SIM_G script_config * M1_MASS script_config"
    by (simp add: script_config_def)
  obtain b1 b2 where
    "setupInitialConditions script_config initial_state =
       (SetupDone, \<lparr> m1 = Some b1, m2 = Some b2, m2Trail = [], isPaused = False,
                     kickArrowState = (kickArrowState initial_state) \<lparr> active := False \<rparr> \<rparr>)"
    "pos b1 = \<lparr> x = canvas_width script_config / 2, y = canvas_height script_config / 2 \<rparr>"
    "vel b1 = \<lparr> x = 0, y = 0 \<rparr>"
    "Vector_sub (pos b2) (pos b1) = \<lparr> x = INITIAL_M2_DISTANCE script_config, y = 0 \<rparr>"
    "Vector_mag (vel b2) =
       sqrt (SIM_G script_config * M1_MASS script_config / INITIAL_M2_DISTANCE script_config)"
    "x (vel b2) * x (Vector_sub (pos b2) (pos b1))
       + y (vel b2) * y (Vector_sub (pos b2) (pos b1)) = 0"
    using setup_circular_orbit [OF d g, of initial_state] by blast
  then have "setupInitialConditions script_config initial_state =
               (SetupDone, \<lparr> m1 = Some b1, m2 = Some b2, m2Trail = [], isPaused = False,
                             kickArrowState = \<lparr> active = False, dir = None, endTime = 0 \<rparr> \<rparr>)
           \<and> pos b1 = \<lparr> x = 400, y = 300 \<rparr>
           \<and> vel b1 = \<lparr> x = 0, y = 0 \<rparr>
           \<and> Vector_sub (pos b2) (pos b1) = \<lparr> x = 150, y = 0 \<rparr>
           \<and> Vector_mag (vel b2) = sqrt (3700 * 1000 / 150)
           \<and> x (vel b2) * x (Vector_sub (pos b2) (pos b1))
             + y (vel b2) * y (Vector_sub (pos b2) (pos b1)) = 0"
    by (simp add: script_config_def initial_state_def)
  then show ?thesis
    using d g by blast
qed

text \<open>
  C5: set up with separation \<open>D = 0\<close>, the function leaves through its zero-distance
  return instead of computing an orbital speed: the session is paused (also after
  \<open>startSimulation\<close>), the secondary's velocity is zero, and the secondary stays where the
  primary is, so no separation is made up.
\<close>

theorem setup_zero_distance:
  assumes "INITIAL_M2_DISTANCE cfg = 0"
  shows "\<exists>b1 b2. setupInitialConditions cfg s =
                    (SetupZeroDistance,
                     \<lparr> m1 = Some b1, m2 = Some b2, m2Trail = [], isPaused = True,
                       kickArrowState = (kickArrowState s) \<lparr> active := False \<rparr> \<rparr>)
           \<and> vel b2 = \<lparr> x = 0, y = 0 \<rparr>
           \<and> pos b2 = pos b1
           \<and> Vector_mag (Vector_sub (pos b2) (pos b1)) = 0
           \<and> isPaused (startSimulation cfg now s)
           \<and> m2 (startSimulation cfg now s) = Some b2"
  using assms
  by (simp add: setupInitialConditions_def startSimulation_def simulationLoop_def draw_fields
      Let_def Vector_sub_def Vector_mag_def)

text \<open>The script with \<open>INITIAL_M2_DISTANCE\<close> changed to 0.\<close>

theorem setup_zero_distance_witness:
  "INITIAL_M2_DISTANCE (script_config \<lparr> INITIAL_M2_DISTANCE := 0 \<rparr>) = 0
   \<and> (\<exists>b1 b2. setupInitialConditions (script_config \<lparr> INITIAL_M2_DISTANCE := 0 \<rparr>) initial_state =
                  (SetupZeroDistance,
                   \<lparr> m1 = Some b1, m2 = Some b2, m2Trail = [], isPaused = True,
                     kickArrowState = \<lparr> active = False, dir = None, endTime = 0 \<rparr> \<rparr>)
         \<and> vel b2 = \<lparr> x = 0, y = 0 \<rparr>
         \<and> pos b2 = \<lparr> x = 400, y = 300 \<rparr>
         \<and> pos b1 = \<lparr> x = 400, y = 300 \<rparr>
         \<and> isPaused (startSimulation (script_config \<lparr> INITIAL_M2_DISTANCE := 0 \<rparr>) 0 initial_state))"
  using setup_zero_distance [of "script_config \<lparr> INITIAL_M2_DISTANCE := 0 \<rparr>" initial_state 0]
  by (simp add: setupInitialConditions_def startSimulation_def simulationLoop_def draw_fields
      Let_def Vector_sub_def Vector_mag_def script_config_def initial_state_def)

section \<open>Claims about \<open>applyKick\<close>\<close>

text \<open>
  C7: on a paused session \<open>applyKick\<close> leaves through its first return and the state after
  the call is the state before it: velocity, trail and pause flag are unchanged.
\<close>

theorem applyKick_paused:
  assumes "isPaused s"
  shows "applyKick cfg angleValue magnitudeValue now s = (KickPaused, s)"
  using assms by (simp add: applyKick_def)

text \<open>A paused session with a secondary at distance 150: a kick of 5 at 90 degrees is refused.\<close>

theorem applyKick_paused_witness:
  "isPaused ((sample_state 150) \<lparr> isPaused := True \<rparr>)
   \<and> applyKick script_config 90 5 0 ((sample_state 150) \<lparr> isPaused := True \<rparr>) =
       (KickPaused, (sample_state 150) \<lparr> isPaused := True \<rparr>)"
  using applyKick_paused [of "(sample_state 150) \<lparr> isPaused := True \<rparr>" script_config 90 5 0]
  by simp

text \<open>
  C8: on a running session with a secondary, \<open>applyKick\<close> adds
  \<open>(magnitude * cos (angle * pi / 180), magnitude * sin (angle * pi / 180))\<close> to the
  secondary's velocity, whatever the magnitude, empties the trail, and leaves the session
  running.
\<close>

theorem applyKick_running:
  assumes "\<not> isPaused s" and "m2 s = Some b2"
  shows "fst (applyKick cfg angleValue magnitudeValue now s) = KickApplied
       \<and> m2 (snd (applyKick cfg angleValue magnitudeValue now s)) =
           Some (b2 \<lparr> vel := \<lparr> x = x (vel b2) + magnitudeValue * cos (angleValue * pi / 180),
                                y = y (vel b2) + magnitudeValue * sin (angleValue * pi / 180) \<rparr> \<rparr>)
       \<and> m2Trail (snd (applyKick cfg angleValue magnitudeValue now s)) = []
       \<and> length (m2Trail (snd (applyKick cfg angleValue magnitudeValue now s))) = 0
       \<and> \<not> isPaused (snd (applyKick cfg angleValue magnitudeValue now s))"
  using assms by (simp add: applyKick_def Let_def Vector_fromAngle_def Vector_add_def)

text \<open>A kick of 5 at 90 degrees on velocity \<open>(0, -157)\<close> gives \<open>(0, -152)\<close>.\<close>

theorem applyKick_running_witness:
  "\<not> isPaused (sample_state 150)
   \<and> m2 (sample_state 150) = Some (secondary_at 150)
   \<and> fst (applyKick script_config 90 5 0 (sample_state 150)) = KickApplied
   \<and> m2 (snd (applyKick script_config 90 5 0 (sample_state 150))) =
       Some ((secondary_at 150) \<lparr> vel := \<lparr> x = 0, y = - 152 \<rparr> \<rparr>)
   \<and> m2Trail (snd (applyKick script_config 90 5 0 (sample_state 150))) = []
   \<and> \<not> isPaused (snd (applyKick script_config 90 5 0 (sample_state 150)))"
  using applyKick_running [of "sample_state 150" "secondary_at 150" script_config 90 5 0]
  by (simp add: sample_bodies secondary_at_def)

section \<open>Claim about the trail\<close>

text \<open>
  C6: in every state the script reaches the trail has at most \<open>MAX_TRAIL_LENGTH\<close> (1000 in
  the script) entries; and pushing more than \<open>MAX_TRAIL_LENGTH\<close> points, one after the
  other, onto a trail within the bound leaves exactly \<open>MAX_TRAIL_LENGTH\<close> entries: the last
  pushed points, in the order of their insertion.
\<close>

theorem trail_bounded_fifo:
  "length (m2Trail (run cfg now evs)) \<le> MAX_TRAIL_LENGTH cfg
   \<and> (length trail \<le> MAX_TRAIL_LENGTH cfg \<and> MAX_TRAIL_LENGTH cfg < length ps \<longrightarrow>
        length (fold (trail_push cfg) ps trail) = MAX_TRAIL_LENGTH cfg
      \<and> fold (trail_push cfg) ps trail = drop (length ps - MAX_TRAIL_LENGTH cfg) ps)"
proof (intro conjI impI)
  show "length (m2Trail (run cfg now evs)) \<le> MAX_TRAIL_LENGTH cfg"
    unfolding run_def by (rule foldl_handle_trail_bound) (rule startSimulation_trail_bound)
next
  assume h: "length trail \<le> MAX_TRAIL_LENGTH cfg \<and> MAX_TRAIL_LENGTH cfg < length ps"
  then show eq: "fold (trail_push cfg) ps trail = drop (length ps - MAX_TRAIL_LENGTH cfg) ps"
    by (simp add: fold_trail_push_last)
  show "length (fold (trail_push cfg) ps trail) = MAX_TRAIL_LENGTH cfg"
    using h by (simp add: eq)
qed

text \<open>
  The script's bound of 1000: 1003 points pushed onto the empty trail leave the points
  numbered 3 to 1002.
\<close>

theorem trail_bounded_fifo_witness:
  "length (m2Trail (run script_config 0 [AnimationFrame 16, KickClick 90 5 20, SpaceKey])) \<le> 1000
   \<and> length ([] :: Vector list) \<le> MAX_TRAIL_LENGTH script_config
   \<and> MAX_TRAIL_LENGTH script_config < length (map (\<lambda>n. \<lparr> x = real n, y = 0 \<rparr>) [0..<1003])
   \<and> length (fold (trail_push script_config) (map (\<lambda>n. \<lparr> x = real n, y = 0 \<rparr>) [0..<1003]) [])
       = 1000
   \<and> fold (trail_push script_config) (map (\<lambda>n. \<lparr> x = real n, y = 0 \<rparr>) [0..<1003]) []
       = map (\<lambda>n. \<lparr> x = real n, y = 0 \<rparr>) [3..<1003]"
proof -
  let ?ps = "map (\<lambda>n. \<lparr> x = real n, y = 0 \<rparr>) [0..<1003]"
  have N: "MAX_TRAIL_LENGTH script_config = 1000"
    by (simp add: script_config_def)
  have h: "length ([] :: Vector list) \<le> MAX_TRAIL_LENGTH script_config
           \<and> MAX_TRAIL_LENGTH script_config < length ?ps"
    by (simp add: N)
  have d: "drop (length ?ps - 1000) ?ps = map (\<lambda>n. \<lparr> x = real n, y = 0 \<rparr>) [3..<1003]"
    by (simp add: drop_map del: upt_rec_numeral)
  from trail_bounded_fifo
    [of script_config 0 "[AnimationFrame 16, KickClick 90 5 20, SpaceKey]" "[]" ?ps] h
  have "length (m2Trail (run script_config 0 [AnimationFrame 16, KickClick 90 5 20, SpaceKey]))
          \<le> MAX_TRAIL_LENGTH script_config"
    and "length (fold (trail_push script_config) ?ps []) = MAX_TRAIL_LENGTH script_config"
    and "fold (trail_push script_config) ?ps [] = drop (length ?ps - MAX_TRAIL_LENGTH script_config) ?ps"
    by blast+
  then show ?thesis
    using h d unfolding N by (simp only: simp_thms)
qed

end
